theory Spec2Isabelle
  imports Main "HOL-Library.AList" "HOL-Library.Sublist"
begin

section \<open>Values shared by the registry and the chat route\<close>

text \<open>
  A value thrown by JavaScript code is either an \<^verbatim>\<open>Error\<close> object with its message or
  some other value. Every handler of the program reads it through
  \<^verbatim>\<open>error instanceof Error ? error.message : fallback\<close>.
\<close>

datatype thrown = Error string | NonError

definition error_message :: "thrown \<Rightarrow> string \<Rightarrow> string" where
  "error_message e fallback = (case e of Error m \<Rightarrow> m | NonError \<Rightarrow> fallback)"

datatype json =
    JNull
  | JBool bool
  | JNum int
  | JStr string
  | JArr "json list"
  | JObj "(string \<times> json) list"

text \<open>JavaScript truthiness of an optional string: \<^verbatim>\<open>undefined\<close> and \<^verbatim>\<open>''\<close> are falsy.\<close>

definition truthy :: "string option \<Rightarrow> bool" where
  "truthy s = (case s of None \<Rightarrow> False | Some v \<Rightarrow> v \<noteq> [])"

text \<open>\<^verbatim>\<open>s || fallback\<close> on an optional string.\<close>

definition or_else :: "string option \<Rightarrow> string \<Rightarrow> string" where
  "or_else s fallback = (case s of None \<Rightarrow> fallback | Some v \<Rightarrow> if v = [] then fallback else v)"

section \<open>src/lib/mcp/types.ts\<close>

record MCPServerConfig =
  config_id :: string
  config_name :: string
  transport :: string
  command :: "string option"
  args :: "string list option"
  env :: "(string \<times> string) list option"
  url :: "string option"

datatype ConnectionStatus = S_disconnected | S_connecting | S_connected | S_error

record ServerConnectionState =
  serverId :: string
  status :: ConnectionStatus
  error :: "string option"
  connectedAt :: "nat option"

record MCPTool =
  tool_name :: string
  tool_description :: "string option"
  tool_inputSchema :: "json option"

record MCPPrompt =
  prompt_name :: string
  prompt_description :: "string option"
  prompt_arguments :: "json option"

record MCPResource =
  resource_uri :: string
  resource_name :: "string option"
  resource_description :: "string option"
  resource_mimeType :: "string option"

section \<open>The protocol SDK, as far as the registry uses it\<close>

datatype Transport =
    StdioClientTransport string "string list" "(string \<times> string) list option"
  | StreamableHTTPClientTransport string
  | SSEClientTransport string

text \<open>A protocol client is identified by the name it is constructed with.\<close>

datatype Client = Client string

datatype ContentItem =
    TextItem string
  | ImageItem string "string option"
  | OtherItem string

text \<open>
  The result of a tool call on the wire. \<open>result_content\<close> is \<open>None\<close> when the field is
  missing or is not an array; \<open>result_rest\<close> stands for every other field of the result.
\<close>

record CallToolResult =
  result_content :: "ContentItem list option"
  result_rest :: json

text \<open>
  What the outside world answers at one moment: whether a URL parses, whether a handshake
  or a close succeeds, the clock, and the replies of a connected server.
\<close>

record world =
  url_parse :: "string \<Rightarrow> thrown option"
  client_connect :: "Client \<Rightarrow> Transport \<Rightarrow> thrown option"
  client_close :: "Client \<Rightarrow> thrown option"
  now :: nat
  random_suffix :: string
  rpc_listTools :: "Client \<Rightarrow> thrown + MCPTool list"
  rpc_listPrompts :: "Client \<Rightarrow> thrown + MCPPrompt list"
  rpc_listResources :: "Client \<Rightarrow> thrown + MCPResource list"
  rpc_callTool :: "Client \<Rightarrow> string \<Rightarrow> json \<Rightarrow> thrown + CallToolResult"

text \<open>The side effects of the registry, in the order they happen.\<close>

datatype effect =
    CreateTransport Transport
  | ClientConnect Client Transport
  | ClientClose Client
  | ConsoleError string
  | ListToolsRPC Client
  | ListPromptsRPC Client
  | ListResourcesRPC Client
  | CallToolRPC Client string json

section \<open>src/lib/mcp/storage.ts: MCPClientManager\<close>

record ClientInstance =
  inst_client :: Client
  inst_transport :: Transport
  inst_config :: MCPServerConfig
  inst_state :: ServerConnectionState

text \<open>
  \<open>clients\<close> is the JavaScript \<^verbatim>\<open>Map\<close> of the manager: an association list in insertion
  order, where \<^verbatim>\<open>set\<close> on a present key keeps its place and \<^verbatim>\<open>delete\<close> removes it.
  \<open>trace\<close> records the side effects performed so far.
\<close>

record registry =
  clients :: "(string \<times> ClientInstance) list"
  trace :: "effect list"

definition new_registry :: registry where
  "new_registry = \<lparr>clients = [], trace = []\<rparr>"

definition emit :: "effect \<Rightarrow> registry \<Rightarrow> registry" where
  "emit e r = r\<lparr>trace := trace r @ [e]\<rparr>"

definition createTransport :: "world \<Rightarrow> MCPServerConfig \<Rightarrow> thrown + Transport" where
  "createTransport w config =
     (if transport config = ''stdio'' then
        (if \<not> truthy (command config) then Inl (Error ''STDIO transport requires a command'')
         else Inr (StdioClientTransport (the (command config))
                     (case args config of None \<Rightarrow> [] | Some a \<Rightarrow> a) (env config)))
      else if transport config = ''streamable-http'' then
        (if \<not> truthy (url config) then Inl (Error ''Streamable HTTP transport requires a URL'')
         else (case url_parse w (the (url config)) of
                 Some e \<Rightarrow> Inl e
               | None \<Rightarrow> Inr (StreamableHTTPClientTransport (the (url config)))))
      else if transport config = ''sse'' then
        (if \<not> truthy (url config) then Inl (Error ''SSE transport requires a URL'')
         else (case url_parse w (the (url config)) of
                 Some e \<Rightarrow> Inl e
               | None \<Rightarrow> Inr (SSEClientTransport (the (url config)))))
      else Inl (Error (''Unsupported transport type: '' @ transport config)))"

definition disconnect :: "world \<Rightarrow> registry \<Rightarrow> string \<Rightarrow> (thrown + unit) \<times> registry" where
  "disconnect w r sid =
     (case map_of (clients r) sid of
        None \<Rightarrow> (Inr (), r)
      | Some instance \<Rightarrow>
          (let r1 = emit (ClientClose (inst_client instance)) r;
               r2 = (case client_close w (inst_client instance) of
                       None \<Rightarrow> r1
                     | Some e \<Rightarrow> emit (ConsoleError (''Error closing client '' @ sid @ '':'')) r1)
           in (Inr (), r2\<lparr>clients := AList.delete sid (clients r2)\<rparr>)))"

text \<open>Lines 213 to 243 of \<^verbatim>\<open>connect\<close>: the attempt itself, inside its \<^verbatim>\<open>try\<close>.\<close>

definition connect_attempt ::
  "world \<Rightarrow> registry \<Rightarrow> MCPServerConfig \<Rightarrow> (thrown + ServerConnectionState) \<times> registry" where
  "connect_attempt w r config =
     (let state = \<lparr>serverId = config_id config, status = S_connecting,
                   error = None, connectedAt = None\<rparr>
      in case createTransport w config of
           Inl e \<Rightarrow>
             (Inr (state\<lparr>status := S_error, error := Some (error_message e ''Connection failed'')\<rparr>), r)
         | Inr tr \<Rightarrow>
             (let client = Client (''mcp-client-'' @ config_id config);
                  r1 = emit (ClientConnect client tr) (emit (CreateTransport tr) r)
              in case client_connect w client tr of
                   Some e \<Rightarrow>
                     (Inr (state\<lparr>status := S_error,
                                 error := Some (error_message e ''Connection failed'')\<rparr>), r1)
                 | None \<Rightarrow>
                     (let state' = state\<lparr>status := S_connected, connectedAt := Some (now w)\<rparr>
                      in (Inr state',
                          r1\<lparr>clients := AList.update (config_id config)
                                 \<lparr>inst_client = client, inst_transport = tr,
                                  inst_config = config, inst_state = state'\<rparr> (clients r1)\<rparr>))))"

definition connect ::
  "world \<Rightarrow> registry \<Rightarrow> MCPServerConfig \<Rightarrow> (thrown + ServerConnectionState) \<times> registry" where
  "connect w r config =
     (case map_of (clients r) (config_id config) of
        None \<Rightarrow> connect_attempt w r config
      | Some existingClient \<Rightarrow>
          if status (inst_state existingClient) = S_connected
          then (Inr (inst_state existingClient), r)
          else (case disconnect w r (config_id config) of
                  (Inl e, r') \<Rightarrow> (Inl e, r')
                | (Inr u, r') \<Rightarrow> connect_attempt w r' config))"

definition getConnectionState :: "registry \<Rightarrow> string \<Rightarrow> ServerConnectionState" where
  "getConnectionState r sid =
     (case map_of (clients r) sid of
        None \<Rightarrow> \<lparr>serverId = sid, status = S_disconnected, error = None, connectedAt = None\<rparr>
      | Some instance \<Rightarrow> inst_state instance)"

definition getClient :: "registry \<Rightarrow> string \<Rightarrow> Client option" where
  "getClient r sid =
     (case map_of (clients r) sid of
        None \<Rightarrow> None
      | Some instance \<Rightarrow>
          if status (inst_state instance) \<noteq> S_connected then None
          else Some (inst_client instance))"

definition not_connected :: "string \<Rightarrow> thrown" where
  "not_connected sid = Error (''Server '' @ sid @ '' is not connected'')"

definition listTools :: "world \<Rightarrow> registry \<Rightarrow> string \<Rightarrow> (thrown + MCPTool list) \<times> registry" where
  "listTools w r sid =
     (case getClient r sid of
        None \<Rightarrow> (Inl (not_connected sid), r)
      | Some c \<Rightarrow>
          (case rpc_listTools w c of
             Inl e \<Rightarrow> (Inl e, emit (ListToolsRPC c) r)
           | Inr tools \<Rightarrow>
               (Inr (map (\<lambda>t. \<lparr>tool_name = tool_name t, tool_description = tool_description t,
                               tool_inputSchema = tool_inputSchema t\<rparr>) tools),
                emit (ListToolsRPC c) r)))"

definition listPrompts ::
  "world \<Rightarrow> registry \<Rightarrow> string \<Rightarrow> (thrown + MCPPrompt list) \<times> registry" where
  "listPrompts w r sid =
     (case getClient r sid of
        None \<Rightarrow> (Inl (not_connected sid), r)
      | Some c \<Rightarrow>
          (case rpc_listPrompts w c of
             Inl e \<Rightarrow> (Inl e, emit (ListPromptsRPC c) r)
           | Inr prompts \<Rightarrow>
               (Inr (map (\<lambda>p. \<lparr>prompt_name = prompt_name p,
                               prompt_description = prompt_description p,
                               prompt_arguments = prompt_arguments p\<rparr>) prompts),
                emit (ListPromptsRPC c) r)))"

definition listResources ::
  "world \<Rightarrow> registry \<Rightarrow> string \<Rightarrow> (thrown + MCPResource list) \<times> registry" where
  "listResources w r sid =
     (case getClient r sid of
        None \<Rightarrow> (Inl (not_connected sid), r)
      | Some c \<Rightarrow>
          (case rpc_listResources w c of
             Inl e \<Rightarrow> (Inl e, emit (ListResourcesRPC c) r)
           | Inr resources \<Rightarrow>
               (Inr (map (\<lambda>x. \<lparr>resource_uri = resource_uri x, resource_name = resource_name x,
                               resource_description = resource_description x,
                               resource_mimeType = resource_mimeType x\<rparr>) resources),
                emit (ListResourcesRPC c) r)))"

subsection \<open>callTool and its result normalisation\<close>

record ToolImage =
  image_data :: string
  image_mimeType :: string

record ToolCallOutput =
  content :: string
  images :: "ToolImage list"
  raw :: CallToolResult

definition newline :: string where
  "newline = [CHR 0x0A]"

text \<open>
  The \<^verbatim>\<open>for (const item of result.content)\<close> loop of \<^verbatim>\<open>callTool\<close>, with its two
  accumulators \<^verbatim>\<open>textContent\<close> and \<^verbatim>\<open>images\<close>.
\<close>

fun extract_items :: "ContentItem list \<Rightarrow> string \<Rightarrow> ToolImage list \<Rightarrow> string \<times> ToolImage list" where
  "extract_items [] textContent imgs = (textContent, imgs)"
| "extract_items (TextItem t # items) textContent imgs =
     extract_items items (textContent @ (if textContent \<noteq> [] then newline else []) @ t) imgs"
| "extract_items (ImageItem d m # items) textContent imgs =
     extract_items items textContent
       (imgs @ [\<lparr>image_data = d, image_mimeType = or_else m ''image/png''\<rparr>])"
| "extract_items (OtherItem k # items) textContent imgs = extract_items items textContent imgs"

definition normalize_result :: "CallToolResult \<Rightarrow> ToolCallOutput" where
  "normalize_result result =
     (let (textContent, imgs) =
            (case result_content result of
               None \<Rightarrow> ([], [])
             | Some items \<Rightarrow> extract_items items [] [])
      in \<lparr>content = textContent, images = imgs, raw = result\<rparr>)"

text \<open>\<^verbatim>\<open>args || {}\<close>: an absent argument object is sent as the empty object.\<close>

definition args_or_empty :: "json option \<Rightarrow> json" where
  "args_or_empty a = (case a of None \<Rightarrow> JObj [] | Some v \<Rightarrow> v)"

definition callTool ::
  "world \<Rightarrow> registry \<Rightarrow> string \<Rightarrow> string \<Rightarrow> json option \<Rightarrow> (thrown + ToolCallOutput) \<times> registry" where
  "callTool w r sid toolName arguments =
     (case getClient r sid of
        None \<Rightarrow> (Inl (not_connected sid), r)
      | Some c \<Rightarrow>
          (case rpc_callTool w c toolName (args_or_empty arguments) of
             Inl e \<Rightarrow> (Inl e, emit (CallToolRPC c toolName (args_or_empty arguments)) r)
           | Inr result \<Rightarrow>
               (Inr (normalize_result result),
                emit (CallToolRPC c toolName (args_or_empty arguments)) r)))"

definition getConnectedServerIds :: "registry \<Rightarrow> string list" where
  "getConnectedServerIds r =
     map fst (filter (\<lambda>(sid, instance). status (inst_state instance) = S_connected) (clients r))"

subsection \<open>Reachable registries\<close>

text \<open>
  What holds of every instance the manager stores: it was stored by a successful
  \<^verbatim>\<open>connect\<close>, under its own id.
\<close>

definition registry_ok :: "registry \<Rightarrow> bool" where
  "registry_ok r =
     list_all (\<lambda>(sid, instance).
        status (inst_state instance) = S_connected \<and>
        connectedAt (inst_state instance) \<noteq> None \<and>
        error (inst_state instance) = None \<and>
        serverId (inst_state instance) = sid) (clients r)"

text \<open>The registries the manager can be in: the singleton starts empty and changes only
  through its public methods.\<close>

inductive reachable :: "registry \<Rightarrow> bool" where
  reachable_new: "reachable new_registry"
| reachable_connect: "reachable r \<Longrightarrow> reachable (snd (connect w r config))"
| reachable_disconnect: "reachable r \<Longrightarrow> reachable (snd (disconnect w r sid))"
| reachable_listTools: "reachable r \<Longrightarrow> reachable (snd (listTools w r sid))"
| reachable_listPrompts: "reachable r \<Longrightarrow> reachable (snd (listPrompts w r sid))"
| reachable_listResources: "reachable r \<Longrightarrow> reachable (snd (listResources w r sid))"
| reachable_callTool: "reachable r \<Longrightarrow> reachable (snd (callTool w r sid toolName a))"

subsection \<open>A concrete world and server\<close>

definition example_world :: world where
  "example_world =
     \<lparr>url_parse = (\<lambda>u. if u = ''not a url'' then Some (Error ''Invalid URL'') else None),
      client_connect = (\<lambda>c t. case t of
                           StdioClientTransport cmd a e \<Rightarrow>
                             if cmd = ''missing-binary'' then Some (Error ''spawn missing-binary ENOENT'')
                             else None
                         | _ \<Rightarrow> None),
      client_close = (\<lambda>c. Some (Error ''close failed'')),
      now = 1700000000,
      random_suffix = ''k3x9q2m1z'',
      rpc_listTools = (\<lambda>c. Inr [\<lparr>tool_name = ''echo'', tool_description = None,
                                    tool_inputSchema = None\<rparr>,
                                   \<lparr>tool_name = ''get__item'', tool_description = None,
                                    tool_inputSchema = None\<rparr>]),
      rpc_listPrompts = (\<lambda>c. Inr []),
      rpc_listResources = (\<lambda>c. Inr []),
      rpc_callTool = (\<lambda>c n a.
         if n = ''echo''
         then Inr \<lparr>result_content = Some [TextItem ''a'', ImageItem ''iVBORw0KGgo='' (Some ''image/png''),
                                           TextItem ''b''],
                   result_rest = JNull\<rparr>
         else Inl (Error (''Unknown tool: '' @ n)))\<rparr>"

definition example_config :: MCPServerConfig where
  "example_config =
     \<lparr>config_id = ''srv1'', config_name = ''Server one'', transport = ''stdio'',
      command = Some ''node'', args = Some [''server.js''], env = None, url = None\<rparr>"

definition example_connected :: registry where
  "example_connected = snd (connect example_world new_registry example_config)"

text \<open>The state \<^verbatim>\<open>connect\<close> returns from its \<^verbatim>\<open>catch\<close> block.\<close>

definition failed_state :: "string \<Rightarrow> thrown \<Rightarrow> ServerConnectionState" where
  "failed_state sid e =
     \<lparr>serverId = sid, status = S_error,
      error = Some (error_message e ''Connection failed''), connectedAt = None\<rparr>"

section \<open>src/app/api/chat/route.ts\<close>

subsection \<open>String helpers of the JavaScript runtime\<close>

text \<open>\<^verbatim>\<open>Array.prototype.join\<close>.\<close>

fun join_with :: "string \<Rightarrow> string list \<Rightarrow> string" where
  "join_with sep [] = []"
| "join_with sep [x] = x"
| "join_with sep (x # y # ys) = x @ sep @ join_with sep (y # ys)"

text \<open>
  \<^verbatim>\<open>String.prototype.replace\<close> with a string pattern: only the first occurrence is
  replaced. (The route's replacement text is empty, so no \<^verbatim>\<open>$\<close> pattern is involved.)
\<close>

fun replace_first :: "string \<Rightarrow> string \<Rightarrow> string \<Rightarrow> string" where
  "replace_first pat rep [] = (if pat = [] then rep else [])"
| "replace_first pat rep (c # cs) =
     (if prefix pat (c # cs) then rep @ drop (length pat) (c # cs)
      else c # replace_first pat rep cs)"

definition digit_char :: "nat \<Rightarrow> char" where
  "digit_char d = char_of (48 + d)"

text \<open>Decimal notation of a non-negative integer, as template literals print it.\<close>

fun show_nat :: "nat \<Rightarrow> string" where
  "show_nat n = (if n < 10 then [digit_char n] else show_nat (n div 10) @ [digit_char (n mod 10)])"

declare show_nat.simps [simp del]

text \<open>\<^verbatim>\<open>img.mimeType.split('/')[1] || 'png'\<close>.\<close>

definition mime_extension :: "string \<Rightarrow> string" where
  "mime_extension m =
     (let rest = dropWhile (\<lambda>c. c \<noteq> CHR ''/'') m
      in if rest = [] then ''png''
         else (let ext = takeWhile (\<lambda>c. c \<noteq> CHR ''/'') (tl rest)
               in if ext = [] then ''png'' else ext))"

subsection \<open>Collecting the tools of the connected servers\<close>

record ServerInfo =
  info_serverId :: string
  info_serverName :: string

record ListedTool =
  listed_serverId :: string
  listed_serverName :: string
  listed_tool :: MCPTool

definition prefixedName :: "string \<Rightarrow> string \<Rightarrow> string" where
  "prefixedName sid name = sid @ ''__'' @ name"

record collected =
  allTools :: "ListedTool list"
  toolServerMap :: "string \<rightharpoonup> ServerInfo"

definition no_tools :: collected where
  "no_tools = \<lparr>allTools = [], toolServerMap = Map.empty\<rparr>"

text \<open>The inner loop \<^verbatim>\<open>for (const tool of tools)\<close>.\<close>

fun add_tools :: "string \<Rightarrow> ServerConnectionState \<Rightarrow> MCPTool list \<Rightarrow> collected \<Rightarrow> collected" where
  "add_tools sid state [] acc = acc"
| "add_tools sid state (tool # tools) acc =
     add_tools sid state tools
       \<lparr>allTools = allTools acc @
          [\<lparr>listed_serverId = sid, listed_serverName = sid,
            listed_tool = tool\<lparr>tool_name := prefixedName sid (tool_name tool)\<rparr>\<rparr>],
        toolServerMap = (toolServerMap acc)
          (prefixedName sid (tool_name tool) \<mapsto>
             \<lparr>info_serverId = sid, info_serverName = serverId state\<rparr>)\<rparr>"

text \<open>
  The outer loop \<^verbatim>\<open>for (const serverId of connectedServerIds)\<close>; a server whose listing
  throws is logged and skipped.
\<close>

fun collect_tools :: "world \<Rightarrow> string list \<Rightarrow> registry \<Rightarrow> collected \<Rightarrow> registry \<times> collected" where
  "collect_tools w [] r acc = (r, acc)"
| "collect_tools w (sid # sids) r acc =
     (case listTools w r sid of
        (Inl e, r') \<Rightarrow>
          collect_tools w sids
            (emit (ConsoleError (''Failed to get tools from server '' @ sid @ '':'')) r') acc
      | (Inr tools, r') \<Rightarrow>
          collect_tools w sids r' (add_tools sid (getConnectionState r' sid) tools acc))"

text \<open>
  How the loop finds the server and the tool behind a name the model asks for: the lookup
  \<^verbatim>\<open>toolServerMap.get(prefixedName)\<close> and then
  \<^verbatim>\<open>prefixedName.replace(`${serverInfo.serverId}__`, '')\<close>.
\<close>

definition actualToolName :: "ServerInfo \<Rightarrow> string \<Rightarrow> string" where
  "actualToolName serverInfo prefixed = replace_first (info_serverId serverInfo @ ''__'') [] prefixed"


subsection \<open>The language model and the event stream\<close>

record FunctionCall =
  call_name :: "string option"
  call_args :: "json option"

record GenerateContentResponse =
  response_functionCalls :: "FunctionCall list option"
  response_text :: "string option"

datatype part = TextPart string | InlineData string string

datatype outgoing = Parts "part list" | Plain string

record MessageImage =
  image_url :: string
  image_urlMimeType :: string

record ChatMessage =
  message_role :: string
  message_content :: "string option"
  message_images :: "MessageImage list option"

record UploadedImage =
  uploaded_url :: string
  uploaded_mimeType :: string

record ToolCallStartEvent =
  start_id :: string
  start_serverId :: string
  start_serverName :: string
  start_name :: string
  start_arguments :: json

record ToolCallResultEvent =
  result_id :: string
  result_result :: "CallToolResult option"
  result_error :: "string option"
  result_images :: "UploadedImage list option"

text \<open>One frame written by \<^verbatim>\<open>sendSSE\<close>: its payload, and the event label it is sent under.\<close>

datatype sse_event =
    TextEvent string
  | ToolCallStart ToolCallStartEvent
  | ToolCallResult ToolCallResultEvent
  | ErrorEvent string
  | DoneEvent

fun event_name :: "sse_event \<Rightarrow> string" where
  "event_name (TextEvent c) = ''text''"
| "event_name (ToolCallStart s) = ''tool_call_start''"
| "event_name (ToolCallResult d) = ''tool_call_result''"
| "event_name (ErrorEvent m) = ''error''"
| "event_name DoneEvent = ''done''"

datatype model_response = ResponseText string | ResponseRaw CallToolResult | ResponseError string

record FunctionResult =
  function_name :: string
  function_response :: model_response

datatype conversation_entry = ModelCalls "FunctionCall list" | UserResponses "FunctionResult list"

text \<open>
  The collaborators of one turn: the model SDK (\<open>'c\<close> is the state of a chat object), the
  outside world as the registry meets it at the n-th tool call of the turn, and the image
  store (data, session id, message id, file name, mime type; the public URL, or nothing
  when the upload or the metadata insert fails).
\<close>

record 'c services =
  chats_create :: "thrown + 'c"
  sendMessage :: "'c \<Rightarrow> outgoing \<Rightarrow> thrown + (GenerateContentResponse \<times> 'c)"
  world_at :: "nat \<Rightarrow> world"
  uploadAndSaveImage :: "string \<Rightarrow> string \<Rightarrow> string \<Rightarrow> string \<Rightarrow> string \<Rightarrow> string option"

text \<open>What \<^verbatim>\<open>POST\<close> has computed from the request before it opens the stream.\<close>

record turn_input =
  lastMessage :: ChatMessage
  lastMessageParts :: "part list"
  sessionId :: "string option"
  messageId :: "string option"
  turn_tools :: collected

definition make_callId :: "world \<Rightarrow> string" where
  "make_callId w = ''call_'' @ show_nat (now w) @ ''_'' @ random_suffix w"

text \<open>The upload loop \<^verbatim>\<open>for (let i = 0; i < result.images.length; i++)\<close>.\<close>

fun upload_images ::
  "'c services \<Rightarrow> world \<Rightarrow> string \<Rightarrow> string \<Rightarrow> string \<Rightarrow> nat \<Rightarrow> ToolImage list \<Rightarrow> UploadedImage list" where
  "upload_images sv w sess msg toolName i [] = []"
| "upload_images sv w sess msg toolName i (img # imgs) =
     (case uploadAndSaveImage sv (image_data img) sess msg
             (''tool_'' @ toolName @ ''_'' @ show_nat i @ ''_'' @ show_nat (now w) @ ''.'' @
              mime_extension (image_mimeType img))
             (image_mimeType img) of
        None \<Rightarrow> upload_images sv w sess msg toolName (Suc i) imgs
      | Some publicUrl \<Rightarrow>
          \<lparr>uploaded_url = publicUrl, uploaded_mimeType = image_mimeType img\<rparr>
            # upload_images sv w sess msg toolName (Suc i) imgs)"

text \<open>
  The body of \<^verbatim>\<open>for (const call of functionCalls)\<close> for one call, the \<open>k\<close>-th of the turn:
  the frames it sends, the result it pushes for the model, and the registry afterwards.
\<close>

definition process_call ::
  "'c services \<Rightarrow> turn_input \<Rightarrow> nat \<Rightarrow> registry \<Rightarrow> FunctionCall
     \<Rightarrow> sse_event list \<times> FunctionResult \<times> registry" where
  "process_call sv inp k r call =
     (let w = world_at sv k;
          callId = make_callId w;
          prefixed = or_else (call_name call) []
      in case toolServerMap (turn_tools inp) prefixed of
           None \<Rightarrow>
             ([ToolCallStart \<lparr>start_id = callId, start_serverId = ''unknown'',
                              start_serverName = ''Unknown'', start_name = prefixed,
                              start_arguments = args_or_empty (call_args call)\<rparr>,
               ToolCallResult \<lparr>result_id = callId, result_result = None,
                               result_error = Some ''Server not found for tool'',
                               result_images = None\<rparr>],
              \<lparr>function_name = prefixed,
               function_response = ResponseError ''Server not found for tool''\<rparr>,
              r)
         | Some serverInfo \<Rightarrow>
             (let toolName = actualToolName serverInfo prefixed;
                  started = ToolCallStart
                    \<lparr>start_id = callId, start_serverId = info_serverId serverInfo,
                     start_serverName = info_serverName serverInfo, start_name = toolName,
                     start_arguments = args_or_empty (call_args call)\<rparr>
              in case callTool w r (info_serverId serverInfo) toolName (call_args call) of
                   (Inl e, r') \<Rightarrow>
                     (let errorMessage = error_message e ''Tool execution failed''
                      in ([started,
                           ToolCallResult \<lparr>result_id = callId, result_result = None,
                                           result_error = Some errorMessage,
                                           result_images = None\<rparr>],
                          \<lparr>function_name = prefixed,
                           function_response = ResponseError errorMessage\<rparr>,
                          r'))
                 | (Inr result, r') \<Rightarrow>
                     (let uploadedImages =
                            (if images result \<noteq> [] \<and> truthy (sessionId inp) \<and> truthy (messageId inp)
                             then upload_images sv w (the (sessionId inp)) (the (messageId inp))
                                    toolName 0 (images result)
                             else []);
                          responseContent =
                            content result @
                            (if uploadedImages \<noteq> []
                             then newline @ newline @ ''[Images generated: '' @
                                  join_with '', '' (map uploaded_url uploadedImages) @ '']''
                             else [])
                      in ([started,
                           ToolCallResult \<lparr>result_id = callId, result_result = Some (raw result),
                                           result_error = None,
                                           result_images =
                                             (if uploadedImages \<noteq> [] then Some uploadedImages
                                              else None)\<rparr>],
                          \<lparr>function_name = prefixed,
                           function_response =
                             (if responseContent \<noteq> [] then ResponseText responseContent
                              else ResponseRaw (raw result))\<rparr>,
                          r'))))"

fun process_calls ::
  "'c services \<Rightarrow> turn_input \<Rightarrow> nat \<Rightarrow> registry \<Rightarrow> FunctionCall list
     \<Rightarrow> sse_event list \<times> FunctionResult list \<times> registry \<times> nat" where
  "process_calls sv inp k r [] = ([], [], r, k)"
| "process_calls sv inp k r (call # calls) =
     (case process_call sv inp k r call of
        (frames, functionResult, r') \<Rightarrow>
          (case process_calls sv inp (Suc k) r' calls of
             (frames', functionResults, r'', k') \<Rightarrow>
               (frames @ frames', functionResult # functionResults, r'', k')))"

text \<open>The variables of the \<^verbatim>\<open>while (continueLoop)\<close> loop.\<close>

record 'c loop_state =
  chat :: 'c
  isFirstMessage :: bool
  pendingFunctionResults :: string
  conversationParts :: "conversation_entry list"
  calls_done :: nat
  manager :: registry

text \<open>
  How the loop of \<^verbatim>\<open>start\<close> ends: it leaves normally (\<^verbatim>\<open>continueLoop = false\<close>), a model
  call throws into the outer \<^verbatim>\<open>catch\<close>, or it is still going when the rounds we follow
  are used up.
\<close>

datatype loop_end = Left | Threw thrown | StillLooping

text \<open>
  What the next \<^verbatim>\<open>chat.sendMessage\<close> sends: the user's message on the first round (its
  parts when it has images, its text otherwise), \<^verbatim>\<open>pendingFunctionResults || ''\<close> later.
\<close>

definition next_message :: "turn_input \<Rightarrow> 'c loop_state \<Rightarrow> outgoing" where
  "next_message inp st =
     (if isFirstMessage st
      then (case message_images (lastMessage inp) of
              None \<Rightarrow> Plain (or_else (message_content (lastMessage inp)) [])
            | Some imgs \<Rightarrow>
                if imgs \<noteq> [] then Parts (lastMessageParts inp)
                else Plain (or_else (message_content (lastMessage inp)) []))
      else Plain (pendingFunctionResults st))"

text \<open>The \<^verbatim>\<open>else\<close> branch of the loop: \<^verbatim>\<open>const text = response.text || ''; if (text) ...\<close>.\<close>

definition text_frames :: "GenerateContentResponse \<Rightarrow> sse_event list" where
  "text_frames response =
     (if or_else (response_text response) [] \<noteq> []
      then [TextEvent (or_else (response_text response) [])] else [])"

fun chat_loop ::
  "nat \<Rightarrow> 'c services \<Rightarrow> turn_input \<Rightarrow> 'c loop_state
     \<Rightarrow> sse_event list \<times> loop_end \<times> 'c loop_state" where
  "chat_loop 0 sv inp st = ([], StillLooping, st)"
| "chat_loop (Suc rounds) sv inp st =
     (case sendMessage sv (chat st) (next_message inp st) of
        Inl e \<Rightarrow> ([], Threw e, st)
      | Inr (response, chat') \<Rightarrow>
          (case response_functionCalls response of
             Some (call # calls) \<Rightarrow>
               (case process_calls sv inp (calls_done st) (manager st) (call # calls) of
                  (frames, functionResults, r', k') \<Rightarrow>
                    (case chat_loop rounds sv inp
                            \<lparr>chat = chat', isFirstMessage = False,
                             pendingFunctionResults = [],
                             conversationParts = conversationParts st @
                               [ModelCalls (call # calls), UserResponses functionResults],
                             calls_done = k', manager = r'\<rparr> of
                       (frames', ending, st') \<Rightarrow> (frames @ frames', ending, st')))
           | _ \<Rightarrow> (text_frames response, Left, st\<lparr>chat := chat', isFirstMessage := False\<rparr>)))"

text \<open>The loop variables as \<^verbatim>\<open>start\<close> initialises them.\<close>

definition initial_state :: "'c \<Rightarrow> registry \<Rightarrow> 'c loop_state" where
  "initial_state c r =
     \<lparr>chat = c, isFirstMessage = True, pendingFunctionResults = [],
      conversationParts = [], calls_done = 0, manager = r\<rparr>"

text \<open>
  The \<^verbatim>\<open>start\<close> function of the stream: the frames enqueued, and whether the controller
  has been closed.
\<close>

definition stream_start ::
  "nat \<Rightarrow> 'c services \<Rightarrow> turn_input \<Rightarrow> registry \<Rightarrow> sse_event list \<times> bool" where
  "stream_start rounds sv inp r =
     (case chats_create sv of
        Inl e \<Rightarrow> ([ErrorEvent (error_message e ''Internal server error'')], True)
      | Inr c \<Rightarrow>
          (case chat_loop rounds sv inp (initial_state c r) of
             (frames, Left, st) \<Rightarrow> (frames @ [DoneEvent], True)
           | (frames, Threw e, st) \<Rightarrow>
               (frames @ [ErrorEvent (error_message e ''Internal server error'')], True)
           | (frames, StillLooping, st) \<Rightarrow> (frames, False)))"

section \<open>Reference definitions for the properties\<close>

subsection \<open>The content blocks of a result, by kind\<close>

definition content_items :: "CallToolResult \<Rightarrow> ContentItem list" where
  "content_items result = (case result_content result of None \<Rightarrow> [] | Some items \<Rightarrow> items)"

fun text_blocks :: "ContentItem list \<Rightarrow> string list" where
  "text_blocks [] = []"
| "text_blocks (TextItem t # items) = t # text_blocks items"
| "text_blocks (ImageItem d m # items) = text_blocks items"
| "text_blocks (OtherItem k # items) = text_blocks items"

fun binary_blocks :: "ContentItem list \<Rightarrow> (string \<times> string option) list" where
  "binary_blocks [] = []"
| "binary_blocks (TextItem t # items) = binary_blocks items"
| "binary_blocks (ImageItem d m # items) = (d, m) # binary_blocks items"
| "binary_blocks (OtherItem k # items) = binary_blocks items"

text \<open>
  The text of a result as the specification words it: all text blocks, in order,
  concatenated with a newline between them.
\<close>

definition spec_textContent :: "CallToolResult \<Rightarrow> string" where
  "spec_textContent result = join_with newline (text_blocks (content_items result))"

text \<open>The image entry \<^verbatim>\<open>callTool\<close> pushes for a binary block: a missing or empty mime type
  becomes \<^verbatim>\<open>image/png\<close>.\<close>

definition defaulted_image :: "string \<times> string option \<Rightarrow> ToolImage" where
  "defaulted_image b = \<lparr>image_data = fst b, image_mimeType = or_else (snd b) ''image/png''\<rparr>"

subsection \<open>Tools on offer, and two servers whose tool names collide\<close>




subsection \<open>Shapes of an event stream\<close>

text \<open>A sequence of \<^verbatim>\<open>tool_call_start\<close>, \<^verbatim>\<open>tool_call_result\<close> pairs, each pair with one id.\<close>

fun call_pairs :: "sse_event list \<Rightarrow> bool" where
  "call_pairs [] = True"
| "call_pairs (ToolCallStart s # ToolCallResult d # fs) = (start_id s = result_id d \<and> call_pairs fs)"
| "call_pairs fs = False"

text \<open>
  Every \<^verbatim>\<open>tool_call_result\<close> frame comes after a \<^verbatim>\<open>tool_call_start\<close> frame with its id;
  \<open>started\<close> holds the ids started so far.
\<close>

fun starts_precede_results :: "string list \<Rightarrow> sse_event list \<Rightarrow> bool" where
  "starts_precede_results started [] = True"
| "starts_precede_results started (ToolCallStart s # fs) =
     starts_precede_results (start_id s # started) fs"
| "starts_precede_results started (ToolCallResult d # fs) =
     (result_id d \<in> set started \<and> starts_precede_results started fs)"
| "starts_precede_results started (f # fs) = starts_precede_results started fs"

fun is_result :: "sse_event \<Rightarrow> bool" where
  "is_result (ToolCallResult d) = True"
| "is_result f = False"

fun is_tool_event :: "sse_event \<Rightarrow> bool" where
  "is_tool_event (ToolCallStart s) = True"
| "is_tool_event (ToolCallResult d) = True"
| "is_tool_event f = False"

text \<open>A reply of the model that asks for no tool: \<^verbatim>\<open>functionCalls\<close> is absent or empty.\<close>

definition no_calls :: "GenerateContentResponse \<Rightarrow> bool" where
  "no_calls response =
     (response_functionCalls response = None \<or> response_functionCalls response = Some [])"

text \<open>The loop variables after a round that executed \<open>calls\<close>.\<close>

definition after_calls ::
  "'c loop_state \<Rightarrow> 'c \<Rightarrow> FunctionCall list \<Rightarrow> FunctionResult list \<Rightarrow> registry \<Rightarrow> nat \<Rightarrow> 'c loop_state" where
  "after_calls st c' calls functionResults r' k' =
     \<lparr>chat = c', isFirstMessage = False, pendingFunctionResults = [],
      conversationParts = conversationParts st @ [ModelCalls calls, UserResponses functionResults],
      calls_done = k', manager = r'\<rparr>"



subsection \<open>A concrete turn\<close>

text \<open>
  A model stub whose first reply asks for one tool and whose second reply is \<open>second\<close>: a
  thrown error or a response. The state of the chat object is the number of replies given.
\<close>

definition example_services :: "string \<Rightarrow> (thrown + GenerateContentResponse) \<Rightarrow> nat services" where
  "example_services tool second =
     \<lparr>chats_create = Inr 0,
      sendMessage = (\<lambda>c m.
         if c = 0
         then Inr (\<lparr>response_functionCalls = Some [\<lparr>call_name = Some tool, call_args = None\<rparr>],
                    response_text = None\<rparr>, 1)
         else (case second of Inl e \<Rightarrow> Inl e | Inr response \<Rightarrow> Inr (response, Suc c))),
      world_at = (\<lambda>k. example_world),
      uploadAndSaveImage = (\<lambda>d s m f t. None)\<rparr>"

definition example_input :: turn_input where
  "example_input =
     \<lparr>lastMessage = \<lparr>message_role = ''user'', message_content = Some ''hi'', message_images = None\<rparr>,
      lastMessageParts = [TextPart ''hi''],
      sessionId = None,
      messageId = None,
      turn_tools = snd (collect_tools example_world (getConnectedServerIds example_connected)
                          example_connected no_tools)\<rparr>"

definition plain_reply :: "string \<Rightarrow> GenerateContentResponse" where
  "plain_reply t = \<lparr>response_functionCalls = None, response_text = Some t\<rparr>"

definition echo_call :: FunctionCall where
  "echo_call = \<lparr>call_name = Some ''srv1__echo'', call_args = None\<rparr>"



section \<open>Properties of the connection registry\<close>

lemma clients_emit [simp]: "clients (emit e r) = clients r"
  by (simp add: emit_def)

lemma trace_emit [simp]: "trace (emit e r) = trace r @ [e]"
  by (simp add: emit_def)

lemma registry_ok_emit [simp]: "registry_ok (emit e r) = registry_ok r"
  by (simp add: registry_ok_def)

lemma registry_ok_lookup:
  "registry_ok r \<Longrightarrow> map_of (clients r) sid = Some instance \<Longrightarrow>
     status (inst_state instance) = S_connected \<and> connectedAt (inst_state instance) \<noteq> None \<and>
     error (inst_state instance) = None \<and> serverId (inst_state instance) = sid"
  by (auto simp: registry_ok_def list_all_iff dest!: map_of_SomeD)

lemma disconnect_fst: "fst (disconnect w r sid) = Inr ()"
  by (simp add: disconnect_def Let_def split: option.splits)

lemma disconnect_absent: "map_of (clients r) sid = None \<Longrightarrow> disconnect w r sid = (Inr (), r)"
  by (simp add: disconnect_def)

lemma disconnect_clients: "clients (snd (disconnect w r sid)) = AList.delete sid (clients r)"
  by (auto simp add: disconnect_def Let_def map_of_eq_None_iff split: option.splits)

lemma disconnect_removes: "map_of (clients (snd (disconnect w r sid))) sid = None"
  by (simp add: disconnect_clients delete_conv')

lemma registry_ok_delete: "registry_ok r \<Longrightarrow> registry_ok (r\<lparr>clients := AList.delete sid (clients r)\<rparr>)"
  by (auto simp: registry_ok_def list_all_iff AList.delete_eq)

lemma registry_ok_disconnect: "registry_ok r \<Longrightarrow> registry_ok (snd (disconnect w r sid))"
  using disconnect_clients[of w r sid]
  by (auto simp: registry_ok_def list_all_iff AList.delete_eq)

lemma list_all_update:
  "list_all (\<lambda>(k, v). P k v) al \<Longrightarrow> P k v \<Longrightarrow> list_all (\<lambda>(k, v). P k v) (AList.update k v al)"
  by (induction al) (auto)

lemma connect_attempt_fst:
  "fst (connect_attempt w r config) =
     (case createTransport w config of
        Inl e \<Rightarrow> Inr \<lparr>serverId = config_id config, status = S_error,
                      error = Some (error_message e ''Connection failed''), connectedAt = None\<rparr>
      | Inr tr \<Rightarrow>
          (case client_connect w (Client (''mcp-client-'' @ config_id config)) tr of
             Some e \<Rightarrow> Inr \<lparr>serverId = config_id config, status = S_error,
                      error = Some (error_message e ''Connection failed''), connectedAt = None\<rparr>
           | None \<Rightarrow> Inr \<lparr>serverId = config_id config, status = S_connected,
                      error = None, connectedAt = Some (now w)\<rparr>))"
  by (simp add: connect_attempt_def Let_def split: sum.splits option.splits)

lemma connect_attempt_ok: "registry_ok r \<Longrightarrow> registry_ok (snd (connect_attempt w r config))"
  by (auto simp: connect_attempt_def Let_def registry_ok_def intro!: list_all_update split: sum.splits option.splits)

lemma connect_attempt_failed:
  "connect_attempt w r config = (Inr st, r') \<Longrightarrow> status st = S_error \<Longrightarrow> clients r' = clients r"
  by (auto simp: connect_attempt_def Let_def split: sum.splits option.splits)

lemma connect_ok: "registry_ok r \<Longrightarrow> registry_ok (snd (connect w r config))"
  using registry_ok_disconnect[of r w "config_id config"]
  by (auto simp: connect_def connect_attempt_ok split: option.splits prod.splits sum.splits)

lemma reachable_ok: "reachable r \<Longrightarrow> registry_ok r"
proof (induction rule: reachable.induct)
  case reachable_new
  then show ?case by (simp add: registry_ok_def new_registry_def)
next
  case (reachable_connect r w config)
  then show ?case by (simp add: connect_ok)
next
  case (reachable_disconnect r w sid)
  then show ?case by (simp add: registry_ok_disconnect)
next
  case (reachable_listTools r w sid)
  then show ?case by (simp add: listTools_def split: option.splits sum.splits)
next
  case (reachable_listPrompts r w sid)
  then show ?case by (simp add: listPrompts_def split: option.splits sum.splits)
next
  case (reachable_listResources r w sid)
  then show ?case by (simp add: listResources_def split: option.splits sum.splits)
next
  case (reachable_callTool r w sid toolName a)
  then show ?case by (simp add: callTool_def Let_def split: option.splits sum.splits)
qed

lemma connect_total:
  assumes "registry_ok r"
  shows "\<exists>st r'. connect w r config = (Inr st, r') \<and>
           (status st = S_connected \<and> connectedAt st \<noteq> None \<or>
            status st = S_error \<and> error st \<noteq> None)"
proof (cases "map_of (clients r) (config_id config)")
  case None
  then have c: "connect w r config = connect_attempt w r config"
    by (simp add: connect_def)
  obtain x r' where a: "connect_attempt w r config = (x, r')"
    by (cases "connect_attempt w r config")
  from connect_attempt_fst[of w r config] a show ?thesis
    unfolding c by (auto split: sum.splits option.splits)
next
  case (Some inst)
  with assms registry_ok_lookup[of r "config_id config" inst] show ?thesis
    by (auto simp: connect_def)
qed

lemma connect_no_client:
  assumes "registry_ok r" "getClient r (config_id config) = None"
  shows "connect w r config = connect_attempt w r config"
proof (cases "map_of (clients r) (config_id config)")
  case None
  then show ?thesis by (simp add: connect_def)
next
  case (Some inst)
  with assms registry_ok_lookup[of r "config_id config" inst] show ?thesis
    by (auto simp: getClient_def)
qed

lemma createTransport_unsupported:
  "transport config \<noteq> ''stdio'' \<Longrightarrow> transport config \<noteq> ''streamable-http'' \<Longrightarrow>
   transport config \<noteq> ''sse'' \<Longrightarrow>
   createTransport w config = Inl (Error (''Unsupported transport type: '' @ transport config))"
  by (simp add: createTransport_def)

lemma createTransport_missing:
  "transport config = ''stdio'' \<Longrightarrow> \<not> truthy (command config) \<Longrightarrow>
     createTransport w config = Inl (Error ''STDIO transport requires a command'')"
  "transport config = ''streamable-http'' \<Longrightarrow> \<not> truthy (url config) \<Longrightarrow>
     createTransport w config = Inl (Error ''Streamable HTTP transport requires a URL'')"
  "transport config = ''sse'' \<Longrightarrow> \<not> truthy (url config) \<Longrightarrow>
     createTransport w config = Inl (Error ''SSE transport requires a URL'')"
  by (simp_all add: createTransport_def)

text \<open>
  Claim C2. In every registry reachable from the empty one, \<open>connect\<close> returns normally for
  every server config and every behaviour of the outside world: the result is always
  \<open>Inr st\<close>, never a thrown value. The returned state is either \<open>connected\<close> with a
  \<open>connectedAt\<close> timestamp or \<open>error\<close> with a message. When no connected instance exists for
  the id: a transport that cannot be built (unsupported kind, missing command or URL,
  unparsable URL) and a failed handshake both give status \<open>error\<close> carrying the message of
  the thrown error (\<open>Connection failed\<close> when the thrown value is not an Error object), and a
  successful handshake gives status \<open>connected\<close> with the current clock value.
\<close>

theorem connect_never_raises:
  assumes "reachable r"
  shows "(\<exists>st r'. connect w r config = (Inr st, r') \<and>
            (status st = S_connected \<and> connectedAt st \<noteq> None \<or>
             status st = S_error \<and> error st \<noteq> None)) \<and>
         (getClient r (config_id config) = None \<longrightarrow>
            (\<forall>e. createTransport w config = Inl e \<longrightarrow>
                 fst (connect w r config) = Inr (failed_state (config_id config) e)) \<and>
            (\<forall>tr e. createTransport w config = Inr tr \<and>
                 client_connect w (Client (''mcp-client-'' @ config_id config)) tr = Some e \<longrightarrow>
                 fst (connect w r config) = Inr (failed_state (config_id config) e)) \<and>
            (\<forall>tr. createTransport w config = Inr tr \<and>
                 client_connect w (Client (''mcp-client-'' @ config_id config)) tr = None \<longrightarrow>
                 fst (connect w r config) =
                   Inr \<lparr>serverId = config_id config, status = S_connected, error = None,
                        connectedAt = Some (now w)\<rparr>)) \<and>
         (transport config \<noteq> ''stdio'' \<and> transport config \<noteq> ''streamable-http'' \<and>
          transport config \<noteq> ''sse'' \<longrightarrow>
            createTransport w config =
              Inl (Error (''Unsupported transport type: '' @ transport config))) \<and>
         (transport config = ''stdio'' \<and> \<not> truthy (command config) \<longrightarrow>
            createTransport w config = Inl (Error ''STDIO transport requires a command'')) \<and>
         (transport config = ''streamable-http'' \<and> \<not> truthy (url config) \<longrightarrow>
            createTransport w config = Inl (Error ''Streamable HTTP transport requires a URL'')) \<and>
         (transport config = ''sse'' \<and> \<not> truthy (url config) \<longrightarrow>
            createTransport w config = Inl (Error ''SSE transport requires a URL''))"
proof -
  have ok: "registry_ok r" using assms by (rule reachable_ok)
  have p1: "\<exists>st r'. connect w r config = (Inr st, r') \<and>
            (status st = S_connected \<and> connectedAt st \<noteq> None \<or>
             status st = S_error \<and> error st \<noteq> None)"
    using ok by (rule connect_total)
  have p2: "getClient r (config_id config) = None \<Longrightarrow>
      fst (connect w r config) = fst (connect_attempt w r config)"
    using connect_no_client[OF ok] by simp
  have p3: "getClient r (config_id config) = None \<longrightarrow>
            (\<forall>e. createTransport w config = Inl e \<longrightarrow>
                 fst (connect w r config) = Inr (failed_state (config_id config) e)) \<and>
            (\<forall>tr e. createTransport w config = Inr tr \<and>
                 client_connect w (Client (''mcp-client-'' @ config_id config)) tr = Some e \<longrightarrow>
                 fst (connect w r config) = Inr (failed_state (config_id config) e)) \<and>
            (\<forall>tr. createTransport w config = Inr tr \<and>
                 client_connect w (Client (''mcp-client-'' @ config_id config)) tr = None \<longrightarrow>
                 fst (connect w r config) =
                   Inr \<lparr>serverId = config_id config, status = S_connected, error = None,
                        connectedAt = Some (now w)\<rparr>)"
    using p2 by (auto simp: connect_attempt_fst failed_state_def)
  show ?thesis
    using p1 p3 createTransport_unsupported[of config w] createTransport_missing[of config w]
    by blast
qed

theorem connect_never_raises_witness:
  "reachable new_registry \<and>
   fst (connect example_world new_registry (example_config\<lparr>transport := ''ftp''\<rparr>)) =
     Inr \<lparr>serverId = ''srv1'', status = S_error,
          error = Some ''Unsupported transport type: ftp'', connectedAt = None\<rparr> \<and>
   fst (connect example_world new_registry (example_config\<lparr>command := None\<rparr>)) =
     Inr \<lparr>serverId = ''srv1'', status = S_error,
          error = Some ''STDIO transport requires a command'', connectedAt = None\<rparr> \<and>
   fst (connect example_world new_registry (example_config\<lparr>command := Some ''missing-binary''\<rparr>)) =
     Inr \<lparr>serverId = ''srv1'', status = S_error,
          error = Some ''spawn missing-binary ENOENT'', connectedAt = None\<rparr> \<and>
   fst (connect example_world new_registry example_config) =
     Inr \<lparr>serverId = ''srv1'', status = S_connected, error = None,
          connectedAt = Some 1700000000\<rparr>"
  using connect_never_raises[OF reachable_new, of example_world "example_config\<lparr>transport := ''ftp''\<rparr>"]
        connect_never_raises[OF reachable_new, of example_world "example_config\<lparr>command := None\<rparr>"]
        connect_never_raises[OF reachable_new, of example_world "example_config\<lparr>command := Some ''missing-binary''\<rparr>"]
        connect_never_raises[OF reachable_new, of example_world example_config]
        reachable_new
  by (simp add: getClient_def new_registry_def example_config_def example_world_def
      failed_state_def error_message_def truthy_def createTransport_def)

lemma connect_attempt_connected:
  "connect_attempt w r config = (Inr st, r') \<Longrightarrow> status st = S_connected \<Longrightarrow>
     \<exists>inst. map_of (clients r') (config_id config) = Some inst \<and> inst_state inst = st"
  by (auto simp: connect_attempt_def Let_def update_conv' split: sum.splits option.splits)

lemma connect_connected:
  assumes "connect w r config = (Inr st, r')" "status st = S_connected"
  shows "\<exists>inst. map_of (clients r') (config_id config) = Some inst \<and> inst_state inst = st"
proof (cases "map_of (clients r) (config_id config)")
  case None
  with assms show ?thesis
    by (simp add: connect_def connect_attempt_connected)
next
  case (Some existing)
  show ?thesis
  proof (cases "status (inst_state existing) = S_connected")
    case True
    with Some assms show ?thesis by (auto simp: connect_def)
  next
    case False
    with Some assms show ?thesis
      by (auto simp: connect_def connect_attempt_connected split: prod.splits sum.splits)
  qed
qed

lemma connect_existing:
  "map_of (clients r) (config_id config) = Some inst \<Longrightarrow> status (inst_state inst) = S_connected \<Longrightarrow>
     connect w r config = (Inr (inst_state inst), r)"
  by (simp add: connect_def)

text \<open>
  Claim C3. When the registry holds a connected instance for the config's id, \<open>connect\<close>
  returns that instance's state and the registry unchanged, clients and trace of side
  effects alike, so no transport is created and no handshake is run. In particular, when
  a first \<open>connect\<close> returned a connected state, a second \<open>connect\<close> with the same id
  (whatever the rest of the config and whatever the outside world does by then) returns
  the same state values and leaves the registry as the first call left it.
\<close>

theorem connect_idempotent:
  "(\<forall>inst. map_of (clients r) (config_id config) = Some inst \<and>
           status (inst_state inst) = S_connected \<longrightarrow>
           connect w r config = (Inr (inst_state inst), r)) \<and>
   (\<forall>w1 st r1 config2.
       connect w1 r config = (Inr st, r1) \<and> status st = S_connected \<and>
       config_id config2 = config_id config \<longrightarrow>
       connect w r1 config2 = (Inr st, r1))"
proof (intro conjI allI impI)
  fix inst
  assume "map_of (clients r) (config_id config) = Some inst \<and> status (inst_state inst) = S_connected"
  then show "connect w r config = (Inr (inst_state inst), r)"
    by (simp add: connect_existing)
next
  fix w1 st r1 and config2 :: MCPServerConfig
  assume a: "connect w1 r config = (Inr st, r1) \<and> status st = S_connected \<and>
             config_id config2 = config_id config"
  then obtain inst where "map_of (clients r1) (config_id config) = Some inst" "inst_state inst = st"
    using connect_connected[of w1 r config st r1] by blast
  with a show "connect w r1 config2 = (Inr st, r1)"
    using connect_existing[of r1 config2 inst w] by simp
qed

lemma example_connected_eq:
  "example_connected =
     \<lparr>clients = [(''srv1'',
         \<lparr>inst_client = Client ''mcp-client-srv1'',
          inst_transport = StdioClientTransport ''node'' [''server.js''] None,
          inst_config = example_config,
          inst_state = \<lparr>serverId = ''srv1'', status = S_connected, error = None,
                        connectedAt = Some 1700000000\<rparr>\<rparr>)],
      trace = [CreateTransport (StdioClientTransport ''node'' [''server.js''] None),
               ClientConnect (Client ''mcp-client-srv1'')
                 (StdioClientTransport ''node'' [''server.js''] None)]\<rparr>"
  by (simp add: example_connected_def connect_def connect_attempt_def new_registry_def
      createTransport_def truthy_def example_world_def emit_def Let_def)
     (simp add: example_config_def)

theorem connect_idempotent_witness:
  "connect example_world new_registry example_config =
     (Inr \<lparr>serverId = ''srv1'', status = S_connected, error = None,
           connectedAt = Some 1700000000\<rparr>, example_connected) \<and>
   connect (example_world\<lparr>now := 1700000777\<rparr>) example_connected
       (example_config\<lparr>command := Some ''other''\<rparr>) =
     (Inr \<lparr>serverId = ''srv1'', status = S_connected, error = None,
           connectedAt = Some 1700000000\<rparr>, example_connected)"
proof -
  have first: "connect example_world new_registry example_config =
     (Inr \<lparr>serverId = ''srv1'', status = S_connected, error = None,
           connectedAt = Some 1700000000\<rparr>, example_connected)"
    unfolding example_connected_eq
    by (simp add: connect_def connect_attempt_def new_registry_def
      createTransport_def truthy_def example_world_def emit_def Let_def)
     (simp add: example_config_def)
  have second: "connect (example_world\<lparr>now := 1700000777\<rparr>) example_connected
       (example_config\<lparr>command := Some ''other''\<rparr>) =
     (Inr \<lparr>serverId = ''srv1'', status = S_connected, error = None,
           connectedAt = Some 1700000000\<rparr>, example_connected)"
    using first
      connect_idempotent[of new_registry example_config "example_world\<lparr>now := 1700000777\<rparr>"]
    by simp
  from first second show ?thesis by simp
qed

text \<open>
  Claim C4. For every registry, server id \<open>s\<close> and behaviour of the outside world
  (including a close that throws), \<open>disconnect s\<close> returns normally, afterwards
  \<open>getConnectionState s\<close> is the state \<open>{serverId: s, status: disconnected}\<close> and the map has
  no entry for \<open>s\<close>; when the id is absent \<open>disconnect\<close> changes nothing at all; entries of
  other ids are untouched.
\<close>

theorem disconnect_then_disconnected:
  "fst (disconnect w r s) = Inr () \<and>
   getConnectionState (snd (disconnect w r s)) s =
     \<lparr>serverId = s, status = S_disconnected, error = None, connectedAt = None\<rparr> \<and>
   map_of (clients (snd (disconnect w r s))) s = None \<and>
   (map_of (clients r) s = None \<longrightarrow> disconnect w r s = (Inr (), r)) \<and>
   (\<forall>s'. s' \<noteq> s \<longrightarrow> map_of (clients (snd (disconnect w r s))) s' = map_of (clients r) s')"
  by (simp add: disconnect_fst disconnect_removes disconnect_absent getConnectionState_def)
     (simp add: disconnect_clients)

theorem disconnect_then_disconnected_witness:
  "client_close example_world (Client ''mcp-client-srv1'') = Some (Error ''close failed'') \<and>
   status (getConnectionState example_connected ''srv1'') = S_connected \<and>
   status (getConnectionState (snd (disconnect example_world example_connected ''srv1'')) ''srv1'')
     = S_disconnected \<and>
   clients (snd (disconnect example_world example_connected ''srv1'')) = [] \<and>
   disconnect example_world new_registry ''srv1'' = (Inr (), new_registry) \<and>
   status (getConnectionState (snd (disconnect example_world new_registry ''srv1'')) ''srv1'')
     = S_disconnected"
  using disconnect_then_disconnected[of example_world example_connected "''srv1''"]
        disconnect_then_disconnected[of example_world new_registry "''srv1''"]
  by (simp add: example_connected_eq getConnectionState_def new_registry_def example_world_def
      disconnect_def emit_def Let_def)

lemma getClient_None_iff:
  "getClient r sid = None \<longleftrightarrow>
     \<not> (\<exists>inst. map_of (clients r) sid = Some inst \<and> status (inst_state inst) = S_connected)"
  by (auto simp: getClient_def split: option.splits)

lemma copy_tools: "map (\<lambda>t. \<lparr>tool_name = tool_name t, tool_description = tool_description t,
                               tool_inputSchema = tool_inputSchema t\<rparr>) tools = tools"
  by (induction tools) auto

lemma copy_prompts: "map (\<lambda>p. \<lparr>prompt_name = prompt_name p,
                               prompt_description = prompt_description p,
                               prompt_arguments = prompt_arguments p\<rparr>) prompts = prompts"
  by (induction prompts) auto

lemma copy_resources: "map (\<lambda>x. \<lparr>resource_uri = resource_uri x, resource_name = resource_name x,
                               resource_description = resource_description x,
                               resource_mimeType = resource_mimeType x\<rparr>) resources = resources"
  by (induction resources) auto

lemma listTools_connected:
  "getClient r sid = Some c \<Longrightarrow>
     listTools w r sid = (rpc_listTools w c, emit (ListToolsRPC c) r)"
  by (simp add: listTools_def copy_tools split: sum.splits)

lemma listPrompts_connected:
  "getClient r sid = Some c \<Longrightarrow>
     listPrompts w r sid = (rpc_listPrompts w c, emit (ListPromptsRPC c) r)"
  by (simp add: listPrompts_def copy_prompts split: sum.splits)

lemma listResources_connected:
  "getClient r sid = Some c \<Longrightarrow>
     listResources w r sid = (rpc_listResources w c, emit (ListResourcesRPC c) r)"
  by (simp add: listResources_def copy_resources split: sum.splits)

lemma callTool_connected:
  "getClient r sid = Some c \<Longrightarrow>
     callTool w r sid toolName a =
       ((case rpc_callTool w c toolName (args_or_empty a) of
           Inl e \<Rightarrow> Inl e | Inr result \<Rightarrow> Inr (normalize_result result)),
        emit (CallToolRPC c toolName (args_or_empty a)) r)"
  by (simp add: callTool_def args_or_empty_def Let_def split: sum.splits)

text \<open>
  Claim C5. \<open>getClient\<close> returns no client exactly when the map holds no instance with status
  \<open>connected\<close> for the id. In that case \<open>listTools\<close>, \<open>listPrompts\<close>, \<open>listResources\<close> and
  \<open>callTool\<close> each throw the error with message \<open>Server <id> is not connected\<close> and perform no
  side effect. When a connected instance exists, each of them issues its protocol call on
  that instance's client (one entry appended to the trace) and returns what the call
  returns, \<open>callTool\<close> after normalising a successful result.
\<close>

theorem operations_need_connection:
  "(getClient r sid = None \<longleftrightarrow>
      \<not> (\<exists>inst. map_of (clients r) sid = Some inst \<and> status (inst_state inst) = S_connected)) \<and>
   (getClient r sid = None \<longrightarrow>
      listTools w r sid = (Inl (Error (''Server '' @ sid @ '' is not connected'')), r) \<and>
      listPrompts w r sid = (Inl (Error (''Server '' @ sid @ '' is not connected'')), r) \<and>
      listResources w r sid = (Inl (Error (''Server '' @ sid @ '' is not connected'')), r) \<and>
      callTool w r sid toolName a = (Inl (Error (''Server '' @ sid @ '' is not connected'')), r)) \<and>
   (\<forall>c. getClient r sid = Some c \<longrightarrow>
      listTools w r sid = (rpc_listTools w c, emit (ListToolsRPC c) r) \<and>
      listPrompts w r sid = (rpc_listPrompts w c, emit (ListPromptsRPC c) r) \<and>
      listResources w r sid = (rpc_listResources w c, emit (ListResourcesRPC c) r) \<and>
      callTool w r sid toolName a =
        ((case rpc_callTool w c toolName (args_or_empty a) of
            Inl e \<Rightarrow> Inl e | Inr result \<Rightarrow> Inr (normalize_result result)),
         emit (CallToolRPC c toolName (args_or_empty a)) r))"
proof (intro conjI)
  show "getClient r sid = None \<longleftrightarrow>
      \<not> (\<exists>inst. map_of (clients r) sid = Some inst \<and> status (inst_state inst) = S_connected)"
    by (rule getClient_None_iff)
  show "getClient r sid = None \<longrightarrow>
      listTools w r sid = (Inl (Error (''Server '' @ sid @ '' is not connected'')), r) \<and>
      listPrompts w r sid = (Inl (Error (''Server '' @ sid @ '' is not connected'')), r) \<and>
      listResources w r sid = (Inl (Error (''Server '' @ sid @ '' is not connected'')), r) \<and>
      callTool w r sid toolName a = (Inl (Error (''Server '' @ sid @ '' is not connected'')), r)"
    by (simp add: listTools_def listPrompts_def listResources_def callTool_def not_connected_def)
  show "\<forall>c. getClient r sid = Some c \<longrightarrow>
      listTools w r sid = (rpc_listTools w c, emit (ListToolsRPC c) r) \<and>
      listPrompts w r sid = (rpc_listPrompts w c, emit (ListPromptsRPC c) r) \<and>
      listResources w r sid = (rpc_listResources w c, emit (ListResourcesRPC c) r) \<and>
      callTool w r sid toolName a =
        ((case rpc_callTool w c toolName (args_or_empty a) of
            Inl e \<Rightarrow> Inl e | Inr result \<Rightarrow> Inr (normalize_result result)),
         emit (CallToolRPC c toolName (args_or_empty a)) r)"
    by (simp add: listTools_connected listPrompts_connected listResources_connected
        callTool_connected)
qed

theorem operations_need_connection_witness:
  "getClient new_registry ''srv1'' = None \<and>
   listTools example_world new_registry ''srv1'' =
     (Inl (Error ''Server srv1 is not connected''), new_registry) \<and>
   callTool example_world new_registry ''srv1'' ''echo'' None =
     (Inl (Error ''Server srv1 is not connected''), new_registry) \<and>
   getClient example_connected ''srv1'' = Some (Client ''mcp-client-srv1'') \<and>
   trace (snd (listTools example_world example_connected ''srv1'')) =
     trace example_connected @ [ListToolsRPC (Client ''mcp-client-srv1'')] \<and>
   trace (snd (callTool example_world example_connected ''srv1'' ''echo'' None)) =
     trace example_connected @ [CallToolRPC (Client ''mcp-client-srv1'') ''echo'' (JObj [])]"
  using operations_need_connection[of new_registry "''srv1''" example_world "''echo''" None]
        operations_need_connection[of example_connected "''srv1''" example_world "''echo''" None]
  by (simp add: getClient_def new_registry_def example_connected_eq args_or_empty_def)

text \<open>
  Claim C10. In every registry reachable from the empty one through \<open>connect\<close>,
  \<open>disconnect\<close>, the three list operations and \<open>callTool\<close>: every stored instance has status
  \<open>connected\<close>; \<open>getConnectionState\<close> returns status \<open>disconnected\<close> or \<open>connected\<close> only; and a
  \<open>connect\<close> that returns status \<open>error\<close> leaves the map of clients as it was.
\<close>

theorem registry_holds_only_connected:
  assumes "reachable r"
  shows "(\<forall>sid inst. map_of (clients r) sid = Some inst \<longrightarrow>
            status (inst_state inst) = S_connected) \<and>
         (status (getConnectionState r sid) = S_disconnected \<or>
          status (getConnectionState r sid) = S_connected) \<and>
         (\<forall>w config st r'. connect w r config = (Inr st, r') \<and> status st = S_error \<longrightarrow>
            clients r' = clients r)"
proof (intro conjI allI impI)
  have ok: "registry_ok r" using assms by (rule reachable_ok)
  show c: "status (inst_state inst) = S_connected" if "map_of (clients r) sid = Some inst"
    for sid inst
    using registry_ok_lookup[OF ok that] by simp
  show "status (getConnectionState r sid) = S_disconnected \<or>
        status (getConnectionState r sid) = S_connected"
    using c[of sid] by (auto simp: getConnectionState_def split: option.splits)
  show "clients r' = clients r"
    if f: "connect w r config = (Inr st, r') \<and> status st = S_error" for w config st r'
  proof (cases "map_of (clients r) (config_id config)")
    case None
    with f show ?thesis
      by (auto simp: connect_def dest: connect_attempt_failed)
  next
    case (Some inst)
    with f c[of "config_id config" inst] show ?thesis
      by (auto simp: connect_def)
  qed
qed

theorem registry_holds_only_connected_witness:
  "reachable example_connected \<and>
   map_of (clients example_connected) ''srv1'' \<noteq> None \<and>
   status (getConnectionState example_connected ''srv1'') = S_connected \<and>
   status (getConnectionState example_connected ''srv2'') = S_disconnected \<and>
   fst (connect example_world example_connected
      (example_config\<lparr>config_id := ''srv2'', transport := ''ftp''\<rparr>)) =
     Inr \<lparr>serverId = ''srv2'', status = S_error,
          error = Some ''Unsupported transport type: ftp'', connectedAt = None\<rparr> \<and>
   clients (snd (connect example_world example_connected
      (example_config\<lparr>config_id := ''srv2'', transport := ''ftp''\<rparr>))) = clients example_connected"
proof -
  have r: "reachable example_connected"
    unfolding example_connected_def by (rule reachable_connect[OF reachable_new])
  show ?thesis
    using r registry_holds_only_connected[OF r, of "''srv1''"]
      registry_holds_only_connected[OF r, of "''srv2''"]
    by (simp add: example_connected_eq getConnectionState_def connect_def connect_attempt_def
        createTransport_def error_message_def Let_def)
qed

section \<open>Properties of the result normalisation\<close>

lemma join_with_Cons: "join_with sep (x # xs) = x @ concat (map (\<lambda>y. sep @ y) xs)"
  by (induction xs arbitrary: x) auto

lemma extract_items_nonempty:
  "t \<noteq> [] \<Longrightarrow> fst (extract_items items t imgs) =
      t @ concat (map (\<lambda>y. newline @ y) (text_blocks items))"
  by (induction items t imgs rule: extract_items.induct) auto

lemma extract_items_text:
  "fst (extract_items items [] imgs) =
     join_with newline (dropWhile (\<lambda>t. t = []) (text_blocks items))"
proof (induction items "[] :: string" imgs rule: extract_items.induct)
  case (2 t items imgs)
  show ?case
  proof (cases "t = []")
    case True
    with 2 show ?thesis by simp
  next
    case False
    then show ?thesis
      by (simp add: extract_items_nonempty join_with_Cons)
  qed
qed auto

lemma extract_items_images:
  "snd (extract_items items t imgs) = imgs @ map defaulted_image (binary_blocks items)"
  by (induction items t imgs rule: extract_items.induct) (auto simp: defaulted_image_def)

lemma normalize_result_eq:
  "normalize_result result =
     \<lparr>content = join_with newline (dropWhile (\<lambda>t. t = []) (text_blocks (content_items result))),
      images = map defaulted_image (binary_blocks (content_items result)),
      raw = result\<rparr>"
proof (cases "result_content result")
  case None
  then show ?thesis by (simp add: normalize_result_def content_items_def)
next
  case (Some items)
  obtain t imgs where e: "extract_items items [] [] = (t, imgs)"
    by (cases "extract_items items [] []")
  from extract_items_text[of items "[]"] extract_items_images[of items "[]" "[]"] e Some
  show ?thesis by (simp add: normalize_result_def content_items_def)
qed

text \<open>
  Claim C6, as amended. For every call result: \<open>content\<close> is the text blocks in order, joined
  by a newline, after the empty text blocks that come before the first non-empty one have
  been dropped (the empty string when there is no text block); so it is the plain
  newline-join of all text blocks whenever the first text block is not empty. \<open>images\<close> is
  the image blocks in order, each with its data and its mime type, \<^verbatim>\<open>image/png\<close> standing
  in for a missing or empty mime type; blocks of other kinds are dropped. \<open>raw\<close> is the
  result itself. Blocks \<open>[text a, image, text b]\<close> with non-empty \<open>a\<close> give \<open>a\<close>, newline,
  \<open>b\<close> and one image.
\<close>

theorem normalize_result_spec:
  "content (normalize_result result) =
     join_with newline (dropWhile (\<lambda>t. t = []) (text_blocks (content_items result))) \<and>
   images (normalize_result result) = map defaulted_image (binary_blocks (content_items result)) \<and>
   raw (normalize_result result) = result \<and>
   (text_blocks (content_items result) = [] \<longrightarrow> content (normalize_result result) = []) \<and>
   (\<forall>t ts. text_blocks (content_items result) = t # ts \<and> t \<noteq> [] \<longrightarrow>
      content (normalize_result result) = spec_textContent result) \<and>
   (\<forall>a d m b. content_items result = [TextItem a, ImageItem d m, TextItem b] \<and> a \<noteq> [] \<longrightarrow>
      content (normalize_result result) = a @ newline @ b \<and>
      length (images (normalize_result result)) = 1)"
  by (auto simp: normalize_result_eq spec_textContent_def)

theorem normalize_result_spec_witness:
  "content (normalize_result \<lparr>result_content = Some [TextItem ''a'', ImageItem ''iVBORw0KGgo='' (Some ''image/png''), TextItem ''b''], result_rest = JNull\<rparr>)
     = ''a'' @ newline @ ''b'' \<and>
   length (images (normalize_result \<lparr>result_content = Some [TextItem ''a'', ImageItem ''iVBORw0KGgo='' (Some ''image/png''), TextItem ''b''], result_rest = JNull\<rparr>)) = 1 \<and>
   content (normalize_result \<lparr>result_content = Some [ImageItem ''iVBORw0KGgo='' None], result_rest = JNull\<rparr>) = [] \<and>
   images (normalize_result \<lparr>result_content = Some [ImageItem ''iVBORw0KGgo='' None], result_rest = JNull\<rparr>)
     = [\<lparr>image_data = ''iVBORw0KGgo='', image_mimeType = ''image/png''\<rparr>]"
  using normalize_result_spec[of "\<lparr>result_content = Some [TextItem ''a'', ImageItem ''iVBORw0KGgo='' (Some ''image/png''), TextItem ''b''], result_rest = JNull\<rparr>"]
    normalize_result_spec[of "\<lparr>result_content = Some [ImageItem ''iVBORw0KGgo='' None], result_rest = JNull\<rparr>"]
  by (simp add: content_items_def defaulted_image_def or_else_def)

text \<open>
  Claim C6 as stated fails on a leading empty text block: for blocks \<open>[text "", text "b"]\<close>
  the newline-join of the text blocks is a newline followed by \<open>b\<close>, while \<^verbatim>\<open>callTool\<close>
  returns \<open>b\<close>: it puts the separator only when the text so far is non-empty.
\<close>

theorem normalize_leading_empty_text_counterexample:
  "content (normalize_result \<lparr>result_content = Some [TextItem [], TextItem ''b''], result_rest = JNull\<rparr>) = ''b'' \<and>
   spec_textContent \<lparr>result_content = Some [TextItem [], TextItem ''b''], result_rest = JNull\<rparr> = newline @ ''b'' \<and>
   content (normalize_result \<lparr>result_content = Some [TextItem [], TextItem ''b''], result_rest = JNull\<rparr>)
     \<noteq> spec_textContent \<lparr>result_content = Some [TextItem [], TextItem ''b''], result_rest = JNull\<rparr>"
  by (simp add: normalize_result_def spec_textContent_def content_items_def newline_def)

section \<open>Properties of the tool naming scheme\<close>



















section \<open>Properties of the orchestration loop\<close>

lemma call_pairs_append: "call_pairs fs \<Longrightarrow> call_pairs gs \<Longrightarrow> call_pairs (fs @ gs)"
  by (induction fs rule: call_pairs.induct) auto


lemma no_results_precede:
  "\<not> list_ex is_result gs \<Longrightarrow> starts_precede_results started gs"
  by (induction started gs rule: starts_precede_results.induct) auto

lemma call_pairs_precede:
  "call_pairs fs \<Longrightarrow> \<not> list_ex is_result gs \<Longrightarrow> starts_precede_results started (fs @ gs)"
proof (induction fs arbitrary: started rule: call_pairs.induct)
  case 1
  then show ?case by (simp add: no_results_precede)
qed auto

lemma process_call_frames:
  "\<exists>s d. fst (process_call sv inp k r call) = [ToolCallStart s, ToolCallResult d] \<and>
         start_id s = make_callId (world_at sv k) \<and> result_id d = make_callId (world_at sv k)"
  by (auto simp: process_call_def Let_def split: option.splits prod.splits sum.splits)

lemma process_call_pairs: "call_pairs (fst (process_call sv inp k r call))"
  using process_call_frames[of sv inp k r call] by auto

lemma process_calls_pairs: "call_pairs (fst (process_calls sv inp k r calls))"
proof (induction calls arbitrary: k r)
  case Nil
  then show ?case by simp
next
  case (Cons call calls)
  obtain fs fr r' where p: "process_call sv inp k r call = (fs, fr, r')"
    by (cases "process_call sv inp k r call")
  obtain fs' frs r'' k' where q: "process_calls sv inp (Suc k) r' calls = (fs', frs, r'', k')"
    by (cases "process_calls sv inp (Suc k) r' calls")
  have "call_pairs fs" using process_call_pairs[of sv inp k r call] p by simp
  moreover have "call_pairs fs'" using Cons.IH[of "Suc k" r'] q by simp
  ultimately show ?case using p q by (simp add: call_pairs_append)
qed

lemma chat_loop_throw:
  "sendMessage sv (chat st) (next_message inp st) = Inl e \<Longrightarrow>
     chat_loop (Suc n) sv inp st = ([], Threw e, st)"
  by simp

lemma chat_loop_text:
  "sendMessage sv (chat st) (next_message inp st) = Inr (response, c') \<Longrightarrow> no_calls response \<Longrightarrow>
     chat_loop (Suc n) sv inp st =
       (text_frames response, Left, st\<lparr>chat := c', isFirstMessage := False\<rparr>)"
  by (auto simp: no_calls_def)

lemma chat_loop_calls:
  "sendMessage sv (chat st) (next_message inp st) = Inr (response, c') \<Longrightarrow>
   response_functionCalls response = Some calls \<Longrightarrow> calls \<noteq> [] \<Longrightarrow>
   process_calls sv inp (calls_done st) (manager st) calls = (fs, frs, r', k') \<Longrightarrow>
   chat_loop n sv inp (after_calls st c' calls frs r' k') = (fs', ending, st') \<Longrightarrow>
     chat_loop (Suc n) sv inp st = (fs @ fs', ending, st')"
  by (cases calls) (auto simp: after_calls_def)

declare chat_loop.simps(2) [simp del]

lemma chat_loop_cases:
  obtains (throw) e where "sendMessage sv (chat st) (next_message inp st) = Inl e"
  | (plain) response c' where "sendMessage sv (chat st) (next_message inp st) = Inr (response, c')"
      "no_calls response"
  | (calls) response c' calls where "sendMessage sv (chat st) (next_message inp st) = Inr (response, c')"
      "response_functionCalls response = Some calls" "calls \<noteq> []"
proof (cases "sendMessage sv (chat st) (next_message inp st)")
  case (Inl e)
  then show ?thesis by (rule throw)
next
  case (Inr p)
  obtain response c' where p: "p = (response, c')" by (cases p)
  show ?thesis
  proof (cases "no_calls response")
    case True
    with Inr p show ?thesis by (auto intro: plain)
  next
    case False
    then obtain cs where "response_functionCalls response = Some cs" "cs \<noteq> []"
      by (auto simp: no_calls_def)
    with Inr p show ?thesis by (auto intro: calls)
  qed
qed

lemma chat_loop_shape:
  "chat_loop n sv inp st = (fs, ending, st') \<Longrightarrow>
     (ending = Left \<longrightarrow> (\<exists>ps response. fs = ps @ text_frames response \<and> call_pairs ps)) \<and>
     (ending \<noteq> Left \<longrightarrow> call_pairs fs) \<and>
     (\<forall>e. ending = Threw e \<longrightarrow> (\<exists>c m. sendMessage sv c m = Inl e))"
proof (induction n arbitrary: st fs ending st')
  case 0
  then show ?case by simp
next
  case (Suc n)
  show ?case
  proof (cases rule: chat_loop_cases[of sv st inp])
    case (throw e)
    from chat_loop_throw[OF throw, of n] Suc.prems have "fs = []" "ending = Threw e" by auto
    with throw show ?thesis by auto
  next
    case (plain response c')
    from chat_loop_text[OF plain, of n] Suc.prems have "fs = [] @ text_frames response" "ending = Left"
      by auto
    then show ?thesis by (metis call_pairs.simps(1) loop_end.distinct(1))
  next
    case (calls response c' calls)
    obtain ps frs r' k' where p: "process_calls sv inp (calls_done st) (manager st) calls = (ps, frs, r', k')"
      by (cases "process_calls sv inp (calls_done st) (manager st) calls") auto
    obtain fs2 ending2 st2 where l: "chat_loop n sv inp (after_calls st c' calls frs r' k') = (fs2, ending2, st2)"
      by (cases "chat_loop n sv inp (after_calls st c' calls frs r' k')") auto
    from chat_loop_calls[OF calls p l] Suc.prems
    have e: "fs = ps @ fs2" "ending = ending2" by auto
    have pp: "call_pairs ps" using process_calls_pairs[of sv inp "calls_done st" "manager st" calls] p by simp
    note ih = Suc.IH[OF l]
    show ?thesis
    proof (intro conjI impI allI)
      assume "ending = Left"
      with ih e obtain qs response where "fs2 = qs @ text_frames response" "call_pairs qs" by auto
      then have "fs = (ps @ qs) @ text_frames response" "call_pairs (ps @ qs)"
        using e pp by (simp_all add: call_pairs_append)
      then show "\<exists>ps response. fs = ps @ text_frames response \<and> call_pairs ps" by blast
    next
      assume "ending \<noteq> Left"
      with ih e pp show "call_pairs fs" by (simp add: call_pairs_append)
    next
      fix e' assume "ending = Threw e'"
      with ih e show "\<exists>c m. sendMessage sv c m = Inl e'" by simp
    qed
  qed
qed


lemma next_message_after_calls [simp]:
  "next_message inp (after_calls st c' calls frs r' k') = Plain []"
  by (simp add: next_message_def after_calls_def)

lemma chat_after_calls [simp]: "chat (after_calls st c' calls frs r' k') = c'"
  by (simp add: after_calls_def)

lemma process_calls_single:
  "process_calls sv inp k r [call] =
     (fst (process_call sv inp k r call), [fst (snd (process_call sv inp k r call))],
      snd (snd (process_call sv inp k r call)), Suc k)"
  by (simp split: prod.splits)

lemma two_round_loop:
  assumes "sendMessage sv (chat st) (next_message inp st) = Inr (resp1, c1)"
    and "response_functionCalls resp1 = Some [call]"
    and "sendMessage sv c1 (Plain []) = Inr (resp2, c2)"
    and "no_calls resp2"
  shows "fst (chat_loop (Suc (Suc n)) sv inp st) =
           fst (process_call sv inp (calls_done st) (manager st) call) @ text_frames resp2 \<and>
         fst (snd (chat_loop (Suc (Suc n)) sv inp st)) = Left"
proof -
  let ?p = "process_call sv inp (calls_done st) (manager st) call"
  let ?st2 = "after_calls st c1 [call] [fst (snd ?p)] (snd (snd ?p)) (Suc (calls_done st))"
  have s2: "sendMessage sv (chat ?st2) (next_message inp ?st2) = Inr (resp2, c2)"
    using assms(3) by simp
  from chat_loop_text[OF s2 assms(4), of n]
  have l2: "chat_loop (Suc n) sv inp ?st2 =
      (text_frames resp2, Left, ?st2\<lparr>chat := c2, isFirstMessage := False\<rparr>)" .
  from chat_loop_calls[OF assms(1,2) _ process_calls_single l2]
  show ?thesis by simp
qed


lemma two_round_stream:
  assumes "chats_create sv = Inr c0"
    and "sendMessage sv c0 (next_message inp (initial_state c0 r)) = Inr (resp1, c1)"
    and "response_functionCalls resp1 = Some [call]"
    and "sendMessage sv c1 (Plain []) = Inr (resp2, c2)"
    and "no_calls resp2"
  shows "stream_start (Suc (Suc n)) sv inp r =
           (fst (process_call sv inp 0 r call) @ text_frames resp2 @ [DoneEvent], True)"
proof -
  have c: "chat (initial_state c0 r) = c0" "calls_done (initial_state c0 r) = 0"
    "manager (initial_state c0 r) = r"
    by (simp_all add: initial_state_def)
  obtain fs ending st' where l: "chat_loop (Suc (Suc n)) sv inp (initial_state c0 r) = (fs, ending, st')"
    by (cases "chat_loop (Suc (Suc n)) sv inp (initial_state c0 r)") auto
  from two_round_loop[of sv "initial_state c0 r" inp resp1 c1 call resp2 c2 n] assms l
  have "fs = fst (process_call sv inp 0 r call) @ text_frames resp2" "ending = Left"
    by (simp_all add: c)
  with l assms(1) show ?thesis by (simp add: stream_start_def)
qed


lemma text_frames_names:
  "map event_name (text_frames response) =
     (if truthy (response_text response) then [''text''] else [])"
  by (simp add: text_frames_def truthy_def or_else_def split: option.splits)

lemma stream_start_shape:
  "\<exists>ps tail. fst (stream_start n sv inp r) = ps @ tail \<and> call_pairs ps \<and> \<not> list_ex is_tool_event tail"
proof (cases "chats_create sv")
  case (Inl e)
  then have "fst (stream_start n sv inp r) = [] @ [ErrorEvent (error_message e ''Internal server error'')]"
    by (simp add: stream_start_def)
  moreover have "\<not> list_ex is_tool_event [ErrorEvent (error_message e ''Internal server error'')]"
    by simp
  moreover have "call_pairs []" by simp
  ultimately show ?thesis by blast
next
  case (Inr c)
  obtain fs ending st' where l: "chat_loop n sv inp (initial_state c r) = (fs, ending, st')"
    by (cases "chat_loop n sv inp (initial_state c r)") auto
  note sh = chat_loop_shape[OF l]
  show ?thesis
  proof (cases ending)
    case Left
    with sh obtain ps response where p: "fs = ps @ text_frames response" "call_pairs ps" by auto
    have "fst (stream_start n sv inp r) = ps @ (text_frames response @ [DoneEvent])"
      using Inr l Left p by (simp add: stream_start_def)
    moreover have "\<not> list_ex is_tool_event (text_frames response @ [DoneEvent])"
      by (simp add: text_frames_def)
    ultimately show ?thesis using p(2) by blast
  next
    case (Threw e)
    with sh have p: "call_pairs fs" by simp
    have "fst (stream_start n sv inp r) = fs @ [ErrorEvent (error_message e ''Internal server error'')]"
      using Inr l Threw by (simp add: stream_start_def)
    moreover have "\<not> list_ex is_tool_event [ErrorEvent (error_message e ''Internal server error'')]"
      by simp
    ultimately show ?thesis using p by blast
  next
    case StillLooping
    with sh have p: "call_pairs fs" by simp
    have "fst (stream_start n sv inp r) = fs @ []"
      using Inr l StillLooping by (simp add: stream_start_def)
    moreover have "\<not> list_ex is_tool_event []" by simp
    ultimately show ?thesis using p by blast
  qed
qed

lemma not_tool_not_result: "\<not> list_ex is_tool_event tail \<Longrightarrow> \<not> list_ex is_result tail"
proof (induction tail)
  case Nil
  then show ?case by simp
next
  case (Cons f fs)
  then show ?case by (cases f) simp_all
qed

lemma stream_start_ordered: "starts_precede_results [] (fst (stream_start n sv inp r))"
proof -
  from stream_start_shape[of n sv inp r] obtain ps tail where
    "fst (stream_start n sv inp r) = ps @ tail" "call_pairs ps" "\<not> list_ex is_tool_event tail"
    by blast
  then show ?thesis
    using call_pairs_precede[of ps tail "[]"] not_tool_not_result[of tail] by simp
qed

lemma process_call_names:
  "map event_name (fst (process_call sv inp k r call)) = [''tool_call_start'', ''tool_call_result'']"
  using process_call_frames[of sv inp k r call] by auto

text \<open>
  Claim C7, as amended. When the chat is created, the model's first reply asks for exactly
  one tool call and its second reply asks for none, then after two rounds the stream is
  closed and holds exactly: the \<^verbatim>\<open>tool_call_start\<close> and \<^verbatim>\<open>tool_call_result\<close> frames of
  that call, a \<^verbatim>\<open>text\<close> frame when the second reply's text is non-empty (no \<^verbatim>\<open>text\<close>
  frame when it is empty or absent), and \<^verbatim>\<open>done\<close>. For every model, every input and every
  number of rounds followed, the stream is a sequence of start/result pairs, each pair
  with one call id, followed by frames that are not tool frames; so every
  \<^verbatim>\<open>tool_call_result\<close> comes after the \<^verbatim>\<open>tool_call_start\<close> with its id.
\<close>

theorem one_tool_round_then_text:
  "(chats_create sv = Inr c0 \<and>
    sendMessage sv c0 (next_message inp (initial_state c0 r)) = Inr (resp1, c1) \<and>
    response_functionCalls resp1 = Some [call] \<and>
    sendMessage sv c1 (Plain []) = Inr (resp2, c2) \<and> no_calls resp2 \<longrightarrow>
      stream_start (Suc (Suc n)) sv inp r =
        (fst (process_call sv inp 0 r call) @ text_frames resp2 @ [DoneEvent], True) \<and>
      map event_name (fst (stream_start (Suc (Suc n)) sv inp r)) =
        [''tool_call_start'', ''tool_call_result''] @
        (if truthy (response_text resp2) then [''text''] else []) @ [''done'']) \<and>
   starts_precede_results [] (fst (stream_start m sv inp r)) \<and>
   (\<exists>ps tail. fst (stream_start m sv inp r) = ps @ tail \<and> call_pairs ps \<and>
      \<not> list_ex is_tool_event tail)"
proof (intro conjI impI)
  assume a: "chats_create sv = Inr c0 \<and>
    sendMessage sv c0 (next_message inp (initial_state c0 r)) = Inr (resp1, c1) \<and>
    response_functionCalls resp1 = Some [call] \<and>
    sendMessage sv c1 (Plain []) = Inr (resp2, c2) \<and> no_calls resp2"
  then show s: "stream_start (Suc (Suc n)) sv inp r =
        (fst (process_call sv inp 0 r call) @ text_frames resp2 @ [DoneEvent], True)"
    using two_round_stream[of sv c0 inp r resp1 c1 call resp2 c2 n] by blast
  show "map event_name (fst (stream_start (Suc (Suc n)) sv inp r)) =
        [''tool_call_start'', ''tool_call_result''] @
        (if truthy (response_text resp2) then [''text''] else []) @ [''done'']"
    unfolding s by (simp add: process_call_names text_frames_names)
next
  show "starts_precede_results [] (fst (stream_start m sv inp r))"
    by (rule stream_start_ordered)
  show "\<exists>ps tail. fst (stream_start m sv inp r) = ps @ tail \<and> call_pairs ps \<and>
      \<not> list_ex is_tool_event tail"
    by (rule stream_start_shape)
qed







lemma example_services_simps:
  "chats_create (example_services tool second) = Inr 0"
  "sendMessage (example_services tool second) 0 msg =
     Inr (\<lparr>response_functionCalls = Some [\<lparr>call_name = Some tool, call_args = None\<rparr>],
           response_text = None\<rparr>, 1)"
  "sendMessage (example_services tool (Inr response)) (Suc 0) msg = Inr (response, Suc (Suc 0))"
  "sendMessage (example_services tool (Inl e)) (Suc 0) msg = Inl e"
  "world_at (example_services tool second) k = example_world"
  by (simp_all add: example_services_def)




theorem one_tool_round_then_text_witness:
  "stream_start (Suc (Suc 0)) (example_services ''srv1__echo'' (Inr (plain_reply ''ok'')))
       example_input example_connected =
     (fst (process_call (example_services ''srv1__echo'' (Inr (plain_reply ''ok''))) example_input 0
             example_connected echo_call) @ [TextEvent ''ok'', DoneEvent], True) \<and>
   map event_name (fst (stream_start (Suc (Suc 0))
       (example_services ''srv1__echo'' (Inr (plain_reply ''ok''))) example_input example_connected)) =
     [''tool_call_start'', ''tool_call_result'', ''text'', ''done'']"
proof -
  let ?sv = "example_services ''srv1__echo'' (Inr (plain_reply ''ok''))"
  have h: "chats_create ?sv = Inr 0 \<and>
    sendMessage ?sv 0 (next_message example_input (initial_state 0 example_connected)) =
      Inr (\<lparr>response_functionCalls = Some [echo_call], response_text = None\<rparr>, Suc 0) \<and>
    response_functionCalls \<lparr>response_functionCalls = Some [echo_call], response_text = None\<rparr> =
      Some [echo_call] \<and>
    sendMessage ?sv (Suc 0) (Plain []) = Inr (plain_reply ''ok'', Suc (Suc 0)) \<and>
    no_calls (plain_reply ''ok'')"
    by (simp add: example_services_simps echo_call_def no_calls_def plain_reply_def)
  from one_tool_round_then_text[where sv = ?sv and n = 0 and inp = example_input
      and r = example_connected, THEN conjunct1, rule_format, OF h]
  show ?thesis
    by (simp add: text_frames_def plain_reply_def or_else_def truthy_def process_call_names)
qed

text \<open>
  Claim C7 as stated fails when the plain-text reply of round 2 is the empty string: the
  guard \<^verbatim>\<open>if (text)\<close> skips the \<^verbatim>\<open>text\<close> frame and the stream is \<^verbatim>\<open>tool_call_start\<close>,
  \<^verbatim>\<open>tool_call_result\<close>, \<^verbatim>\<open>done\<close>.
\<close>

theorem empty_reply_counterexample:
  "sendMessage (example_services ''srv1__echo'' (Inr (plain_reply []))) (Suc 0) (Plain []) =
     Inr (\<lparr>response_functionCalls = None, response_text = Some []\<rparr>, Suc (Suc 0)) \<and>
   map event_name (fst (stream_start (Suc (Suc 0))
       (example_services ''srv1__echo'' (Inr (plain_reply []))) example_input example_connected)) =
     [''tool_call_start'', ''tool_call_result'', ''done''] \<and>
   map event_name (fst (stream_start (Suc (Suc 0))
       (example_services ''srv1__echo'' (Inr (plain_reply []))) example_input example_connected)) \<noteq>
     [''tool_call_start'', ''tool_call_result'', ''text'', ''done'']"
proof -
  let ?sv = "example_services ''srv1__echo'' (Inr (plain_reply []))"
  have "stream_start (Suc (Suc 0)) ?sv example_input example_connected =
          (fst (process_call ?sv example_input 0 example_connected echo_call) @
           text_frames (plain_reply []) @ [DoneEvent], True)"
    by (rule two_round_stream[of _ 0 _ _
          "\<lparr>response_functionCalls = Some [echo_call], response_text = None\<rparr>" "Suc 0" _ _
          "Suc (Suc 0)"])
       (simp_all add: example_services_simps echo_call_def no_calls_def plain_reply_def)
  then show ?thesis
    by (simp add: process_call_names text_frames_def plain_reply_def or_else_def
        example_services_simps)
qed




end
